theory Spec2Isabelle
  imports Complex_Main
begin

section \<open>Python values\<close>

subsection \<open>Strings\<close>

text \<open>
  A Python \<open>str\<close> is a sequence of Unicode code points and \<open>len\<close> counts code points.
  A code point is modelled as a natural number, a \<open>str\<close> as a list of them. \<open>str\<close> turns an
  ASCII literal into such a list.
\<close>

type_synonym pychar = nat
type_synonym pystr = "nat list"

definition str :: "string \<Rightarrow> pystr" where
  "str s = map of_char s"

text \<open>
  The whitespace of \<open>str.strip()\<close>, \<open>str.split()\<close> and of \<open>\s\<close> in a \<open>str\<close> pattern of
  \<open>re\<close>: U+0009..U+000D, U+001C..U+0020, U+0085, U+00A0, U+1680, U+2000..U+200A, U+2028,
  U+2029, U+202F, U+205F, U+3000.
\<close>

definition is_space :: "pychar \<Rightarrow> bool" where
  "is_space c \<longleftrightarrow>
     (9 \<le> c \<and> c \<le> 13) \<or> (28 \<le> c \<and> c \<le> 32) \<or> c = 0x85 \<or> c = 0xA0 \<or> c = 0x1680 \<or>
     (0x2000 \<le> c \<and> c \<le> 0x200A) \<or> c = 0x2028 \<or> c = 0x2029 \<or> c = 0x202F \<or>
     c = 0x205F \<or> c = 0x3000"

text \<open>\<open>s.strip(chars)\<close> and \<open>s.strip()\<close>.\<close>

definition strip_where :: "(pychar \<Rightarrow> bool) \<Rightarrow> pystr \<Rightarrow> pystr" where
  "strip_where p s = rev (dropWhile p (rev (dropWhile p s)))"

definition strip :: "pystr \<Rightarrow> pystr" where
  "strip s = strip_where is_space s"

text \<open>\<open>s.split(sep)\<close> for a one-character separator: empty pieces are kept.\<close>

fun split_on :: "pychar \<Rightarrow> pystr \<Rightarrow> pystr list" where
  "split_on sep [] = [[]]"
| "split_on sep (c # cs) =
     (if c = sep then [] # split_on sep cs
      else (case split_on sep cs of [] \<Rightarrow> [[c]] | p # ps \<Rightarrow> (c # p) # ps))"

text \<open>\<open>s.split()\<close>: the maximal runs of non-whitespace; \<open>cur\<close> is the run being read, reversed.\<close>

fun split_ws_from :: "pystr \<Rightarrow> pystr \<Rightarrow> pystr list" where
  "split_ws_from cur [] = (if cur = [] then [] else [rev cur])"
| "split_ws_from cur (c # cs) =
     (if is_space c then (if cur = [] then split_ws_from [] cs else rev cur # split_ws_from [] cs)
      else split_ws_from (c # cur) cs)"

definition split_ws :: "pystr \<Rightarrow> pystr list" where
  "split_ws s = split_ws_from [] s"

text \<open>
  The character tables of the interpreter's Unicode database are not part of the repository;
  the functions that consult them take them as a parameter:
  \<^item> \<open>decimal_value c\<close> is the digit value of \<open>c\<close> when \<open>c\<close> has category Nd (what \<open>\d\<close>
    matches in a \<open>str\<close> pattern and what \<open>int()\<close> accepts), and \<open>None\<close> otherwise;
  \<^item> \<open>isdigit_char c\<close> holds when \<open>c.isdigit()\<close> does (Nd and the other digit characters,
    such as superscript two);
  \<^item> \<open>int_max_str_digits\<close> is the interpreter's limit on the length of a string converted
    by \<open>int()\<close>, 0 meaning no limit;
  \<^item> \<open>lower\<close> is \<open>str.lower()\<close>.
\<close>

record unicode_db =
  decimal_value :: "pychar \<Rightarrow> nat option"
  isdigit_char :: "pychar \<Rightarrow> bool"
  int_max_str_digits :: nat
  lower :: "pystr \<Rightarrow> pystr"

definition is_decimal :: "unicode_db \<Rightarrow> pychar \<Rightarrow> bool" where
  "is_decimal db c \<longleftrightarrow> decimal_value db c \<noteq> None"

text \<open>
  \<open>ascii_db\<close> agrees with CPython's tables on every code point below 128 (and on Latin-1 for
  the digits: superscript one, two and three are digits that are not decimal).
\<close>

definition ascii_db :: unicode_db where
  "ascii_db = \<lparr>
     decimal_value = (\<lambda>c. if 48 \<le> c \<and> c \<le> 57 then Some (c - 48) else None),
     isdigit_char = (\<lambda>c. (48 \<le> c \<and> c \<le> 57) \<or> c = 0xB2 \<or> c = 0xB3 \<or> c = 0xB9),
     int_max_str_digits = 4300,
     lower = map (\<lambda>c. if 65 \<le> c \<and> c \<le> 90 then c + 32 else c) \<rparr>"

subsection \<open>Slices\<close>

text \<open>
  \<open>xs[:k]\<close> for an integer \<open>k\<close>: a negative \<open>k\<close> counts from the end. \<open>xs[-k:]\<close> for
  \<open>k > 0\<close> is the last \<open>k\<close> elements; \<open>xs[i:i+k]\<close> for \<open>0 \<le> i\<close> is read with \<open>slice_from\<close>.
\<close>

definition slice_to :: "'a list \<Rightarrow> int \<Rightarrow> 'a list" where
  "slice_to xs k = (if k < 0 then take (length xs - nat (- k)) xs else take (nat k) xs)"

definition norm_index :: "nat \<Rightarrow> int \<Rightarrow> nat" where
  "norm_index n i = (if i < 0 then nat (int n + i) else min n (nat i))"

definition slice :: "'a list \<Rightarrow> int \<Rightarrow> int \<Rightarrow> 'a list" where
  "slice xs i j = (let a = norm_index (length xs) i; b = norm_index (length xs) j
                   in take (b - a) (drop a xs))"

definition slice_from :: "'a list \<Rightarrow> int \<Rightarrow> 'a list" where
  "slice_from xs i = drop (norm_index (length xs) i) xs"

section \<open>Query decomposition: parsing the sub-queries\<close>








section \<open>Configuration\<close>

text \<open>The settings of \<open>Config\<close> that the modelled functions read.\<close>

record config =
  enable_bm25 :: bool
  fusion_method :: pystr
  dense_weight :: real
  keyword_weight :: real
  enable_rerank :: bool
  rerank_backend :: pystr
  rerank_top_k :: int
  enable_metadata_filter :: bool
  chunk_size :: int
  chunk_overlap :: int

text \<open>\<open>x or d\<close> for an optional integer: \<open>None\<close> and 0 are falsy.\<close>

definition int_or :: "int option \<Rightarrow> int \<Rightarrow> int" where
  "int_or x d = (case x of None \<Rightarrow> d | Some k \<Rightarrow> if k = 0 then d else k)"

section \<open>Retrieval results\<close>

text \<open>
  An entry of \<open>bm25_documents\<close> is a dictionary with the keys \<open>chunk_id\<close>, \<open>doc_id\<close>,
  \<open>text\<close>, \<open>language\<close>, \<open>page_num\<close> and \<open>metadata\<close>; a \<open>RetrievalResult\<close> has the same
  fields and a \<open>score\<close>. Scores are Python floats; they are modelled as real numbers, so
  rounding and NaN are outside the model. The metadata dictionary is kept abstract.
\<close>

record 'm document =
  chunk_id :: pystr
  doc_id :: pystr
  "text" :: pystr
  language :: "pystr option"
  page_num :: "int option"
  metadata :: 'm

record 'm retrieval_result = "'m document" +
  score :: real

text \<open>
  \<open>sorted(xs, key=lambda x: x.score, reverse=True)\<close>: Python's sort is stable, and with
  \<open>reverse=True\<close> elements of equal key keep their original order.
\<close>

definition sorted_by_score_desc :: "('a \<Rightarrow> real) \<Rightarrow> 'a list \<Rightarrow> 'a list" where
  "sorted_by_score_desc key xs = sort_key (\<lambda>x. - key x) xs"

section \<open>Reranking\<close>

text \<open>\<open>i.isdigit()\<close> and \<open>int(i)\<close> for a string of digits; \<open>None\<close> is ValueError.\<close>

definition py_isdigit :: "unicode_db \<Rightarrow> pystr \<Rightarrow> bool" where
  "py_isdigit db s \<longleftrightarrow> s \<noteq> [] \<and> list_all (isdigit_char db) s"

definition py_int :: "unicode_db \<Rightarrow> pystr \<Rightarrow> int option" where
  "py_int db s =
     (if s = [] \<or> \<not> list_all (is_decimal db) s then None
      else if int_max_str_digits db \<noteq> 0 \<and> int_max_str_digits db < length s then None
      else Some (int (foldl (\<lambda>n c. 10 * n + the (decimal_value db c)) 0 s)))"

text \<open>
  \<open>[int(i) for i in indices_str.split() if i.isdigit()]\<close>; the comprehension raises as soon
  as one conversion does.
\<close>

fun parse_indices :: "unicode_db \<Rightarrow> pystr list \<Rightarrow> int list option" where
  "parse_indices db [] = Some []"
| "parse_indices db (t # ts) =
     (if py_isdigit db t
      then (case py_int db t of
              None \<Rightarrow> None
            | Some n \<Rightarrow> (case parse_indices db ts of None \<Rightarrow> None | Some ns \<Rightarrow> Some (n # ns)))
      else parse_indices db ts)"

text \<open>\<open>response.strip().split('\n')[0].strip()\<close> split at whitespace.\<close>

definition index_tokens :: "pystr \<Rightarrow> pystr list option" where
  "index_tokens response =
     (case split_on 10 (strip response) of
        [] \<Rightarrow> None
      | first_line # _ \<Rightarrow> Some (split_ws (strip first_line)))"

text \<open>
  \<open>_parse_reranking_response\<close>: every exception of the body is caught and gives the input
  back.
\<close>

definition parse_reranking_response :: "unicode_db \<Rightarrow> pystr \<Rightarrow> 'a list \<Rightarrow> 'a list" where
  "parse_reranking_response db response results =
     (case index_tokens response of
        None \<Rightarrow> results
      | Some toks \<Rightarrow>
          (case parse_indices db toks of
             None \<Rightarrow> results
           | Some indices \<Rightarrow>
               map (\<lambda>idx. results ! nat idx)
                 (filter (\<lambda>idx. 0 \<le> idx \<and> idx < int (length results)) indices)
               @ map snd (filter (\<lambda>(i, result). int i \<notin> set indices)
                            (enumerate 0 results))))"

text \<open>
  The outcome of a call to a hosted model: an exception, or the text of the response (empty
  when the model returned nothing). For the relevance judge, building the prompt and calling
  the model both happen inside the \<open>try\<close> of \<open>rerank_with_gemini\<close>.
\<close>

datatype llm_outcome = Raises | Text pystr

definition rerank_with_gemini ::
  "config \<Rightarrow> unicode_db \<Rightarrow> (pystr \<Rightarrow> 'a list \<Rightarrow> llm_outcome) \<Rightarrow> pystr \<Rightarrow> 'a list \<Rightarrow> int option
   \<Rightarrow> 'a list" where
  "rerank_with_gemini cfg db judge query results top_k =
     (let k = int_or top_k (rerank_top_k cfg)
      in if results = [] then []
         else (case judge query results of
                 Raises \<Rightarrow> slice_to results k
               | Text response \<Rightarrow>
                   if response = [] then slice_to results k
                   else slice_to (parse_reranking_response db response results) k))"

text \<open>
  \<open>rerank_with_cpu\<close>: the number of distinct query tokens that occur in the passage, times
  0.1, is added to the score.
\<close>

definition overlap :: "unicode_db \<Rightarrow> pystr \<Rightarrow> pystr \<Rightarrow> nat" where
  "overlap db query passage =
     length (filter (\<lambda>t. t \<in> set (split_ws (lower db passage)))
               (remdups (split_ws (lower db query))))"

definition rerank_with_cpu ::
  "config \<Rightarrow> unicode_db \<Rightarrow> pystr \<Rightarrow> 'm retrieval_result list \<Rightarrow> int option
   \<Rightarrow> 'm retrieval_result list" where
  "rerank_with_cpu cfg db query results top_k =
     (let k = int_or top_k (rerank_top_k cfg)
      in if results = [] then []
         else slice_to
                (sorted_by_score_desc score
                   (map (\<lambda>result. result\<lparr>score := score result
                                             + real (overlap db query (text result)) * (1 / 10)\<rparr>)
                      results))
                k)"

definition rerank ::
  "config \<Rightarrow> unicode_db \<Rightarrow> (pystr \<Rightarrow> 'm retrieval_result list \<Rightarrow> llm_outcome) \<Rightarrow> pystr
   \<Rightarrow> 'm retrieval_result list \<Rightarrow> int option \<Rightarrow> 'm retrieval_result list" where
  "rerank cfg db judge query results top_k =
     (if \<not> enable_rerank cfg then slice_to results (int_or top_k (int (length results)))
      else if rerank_backend cfg = str ''gemini''
      then rerank_with_gemini cfg db judge query results top_k
      else rerank_with_cpu cfg db query results top_k)"

section \<open>Hybrid retrieval\<close>

subsection \<open>Sparse search\<close>







subsection \<open>Fusion\<close>

text \<open>
  \<open>result_map\<close> is a dictionary from \<open>chunk_id\<close> to a result. A Python dictionary keeps its
  keys in insertion order and an assignment to an existing key keeps the key's place, so the
  dictionary is an association list and \<open>values()\<close> is the list of its second components.
\<close>

fun dict_set :: "('k \<times> 'v) list \<Rightarrow> 'k \<Rightarrow> 'v \<Rightarrow> ('k \<times> 'v) list" where
  "dict_set [] k v = [(k, v)]"
| "dict_set ((k', v') # m) k v = (if k' = k then (k, v) # m else (k', v') # dict_set m k v)"

text \<open>The first loop of either method: a later entry of the same \<open>chunk_id\<close> replaces an earlier one.\<close>

fun add_dense ::
  "('m retrieval_result \<Rightarrow> nat \<Rightarrow> real) \<Rightarrow> nat \<Rightarrow> (pystr \<times> 'm retrieval_result) list
   \<Rightarrow> 'm retrieval_result list \<Rightarrow> (pystr \<times> 'm retrieval_result) list" where
  "add_dense term rank result_map [] = result_map"
| "add_dense term rank result_map (result # rest) =
     add_dense term (Suc rank)
       (dict_set result_map (chunk_id result) (result\<lparr>score := term result rank\<rparr>)) rest"

text \<open>The second loop: the term is added to the score of an entry that is already there.\<close>

fun add_sparse ::
  "('m retrieval_result \<Rightarrow> nat \<Rightarrow> real) \<Rightarrow> nat \<Rightarrow> (pystr \<times> 'm retrieval_result) list
   \<Rightarrow> 'm retrieval_result list \<Rightarrow> (pystr \<times> 'm retrieval_result) list" where
  "add_sparse term rank result_map [] = result_map"
| "add_sparse term rank result_map (result # rest) =
     add_sparse term (Suc rank)
       (case map_of result_map (chunk_id result) of
          Some found \<Rightarrow>
            dict_set result_map (chunk_id result) (found\<lparr>score := score found + term result rank\<rparr>)
        | None \<Rightarrow>
            dict_set result_map (chunk_id result) (result\<lparr>score := term result rank\<rparr>))
       rest"

definition fuse_results ::
  "config \<Rightarrow> 'm retrieval_result list \<Rightarrow> 'm retrieval_result list \<Rightarrow> pystr
   \<Rightarrow> 'm retrieval_result list" where
  "fuse_results cfg dense_results sparse_results method =
     (if method = str ''weighted''
      then sorted_by_score_desc score
             (map snd
                (add_sparse (\<lambda>result rank. score result * keyword_weight cfg) 0
                   (add_dense (\<lambda>result rank. score result * dense_weight cfg) 0 [] dense_results)
                   sparse_results))
      else sorted_by_score_desc score
             (map snd
                (add_sparse (\<lambda>result rank. 1 / (60 + real rank + 1)) 0
                   (add_dense (\<lambda>result rank. 1 / (60 + real rank + 1)) 0 [] dense_results)
                   sparse_results)))"

section \<open>Storage\<close>

text \<open>
  The tables of \<open>SQLiteStorage\<close>, each a list of rows in insertion order. \<open>CURRENT_TIMESTAMP\<close>
  is the time \<open>now\<close> handed to each operation. Input and output errors of the database are
  outside the model; the one error a statement of the source can raise on well-formed tables
  is the violation of \<open>doc_id TEXT UNIQUE\<close>.
\<close>

datatype JobStatus = PENDING | PROCESSING | COMPLETED | FAILED

record job =
  job_id :: nat
  job_doc_id :: pystr
  file_path :: pystr
  job_language :: pystr
  status :: JobStatus
  created_at :: nat
  updated_at :: nat
  error_message :: "pystr option"
  job_metadata :: "(pystr \<times> pystr) list"

record message =
  message_session_id :: pystr
  role :: pystr
  content :: pystr
  message_created_at :: nat

record storage =
  jobs :: "job list"
  chat_sessions :: "(pystr \<times> nat) list"
  chat_messages :: "message list"

definition empty_storage :: storage where
  "empty_storage = \<lparr>jobs = [], chat_sessions = [], chat_messages = []\<rparr>"

datatype db_error = IntegrityError

text \<open>
  \<open>add_job\<close> is a plain \<open>INSERT\<close>: a row whose \<open>doc_id\<close> is already in the table violates the
  uniqueness constraint, the statement raises and nothing is committed. Rows are never
  deleted, so the row id of a new row is the number of rows plus one.
\<close>

definition add_job ::
  "storage \<Rightarrow> nat \<Rightarrow> pystr \<Rightarrow> pystr \<Rightarrow> pystr \<Rightarrow> (pystr \<times> pystr) list option
   \<Rightarrow> db_error + (storage \<times> nat)" where
  "add_job s now doc file lang meta =
     (if doc \<in> set (map job_doc_id (jobs s)) then Inl IntegrityError
      else Inr (s\<lparr>jobs := jobs s @
                   [\<lparr>job_id = Suc (length (jobs s)), job_doc_id = doc, file_path = file,
                     job_language = lang, status = PENDING, created_at = now, updated_at = now,
                     error_message = None,
                     job_metadata = (case meta of None \<Rightarrow> [] | Some m \<Rightarrow> m)\<rparr>]\<rparr>,
                Suc (length (jobs s))))"

text \<open>\<open>LIMIT n\<close>: a negative \<open>n\<close> is no limit.\<close>

definition sql_limit :: "int \<Rightarrow> 'a list \<Rightarrow> 'a list" where
  "sql_limit n rows = (if n < 0 then rows else take (nat n) rows)"

text \<open>Rows of equal \<open>created_at\<close> are returned in insertion order.\<close>

definition get_pending_jobs :: "storage \<Rightarrow> int \<Rightarrow> job list" where
  "get_pending_jobs s limit =
     sql_limit limit (sort_key created_at (filter (\<lambda>j. status j = PENDING) (jobs s)))"

definition update_job_status :: "storage \<Rightarrow> nat \<Rightarrow> pystr \<Rightarrow> JobStatus \<Rightarrow> pystr option \<Rightarrow> storage" where
  "update_job_status s now doc st err =
     s\<lparr>jobs := map (\<lambda>j. if job_doc_id j = doc
                         then j\<lparr>status := st, error_message := err, updated_at := now\<rparr>
                         else j) (jobs s)\<rparr>"

definition get_job :: "storage \<Rightarrow> pystr \<Rightarrow> job option" where
  "get_job s doc = find (\<lambda>j. job_doc_id j = doc) (jobs s)"

definition create_session :: "storage \<Rightarrow> nat \<Rightarrow> pystr \<Rightarrow> storage" where
  "create_session s now sid =
     (if sid \<in> set (map fst (chat_sessions s)) then s
      else s\<lparr>chat_sessions := chat_sessions s @ [(sid, now)]\<rparr>)"

definition add_message :: "storage \<Rightarrow> nat \<Rightarrow> pystr \<Rightarrow> pystr \<Rightarrow> pystr \<Rightarrow> storage" where
  "add_message s now sid r c =
     s\<lparr>chat_messages := chat_messages s @
          [\<lparr>message_session_id = sid, role = r, content = c, message_created_at = now\<rparr>]\<rparr>"

definition get_session_messages :: "storage \<Rightarrow> pystr \<Rightarrow> int option \<Rightarrow> message list" where
  "get_session_messages s sid limit =
     (let rows = sort_key message_created_at
                   (filter (\<lambda>m. message_session_id m = sid) (chat_messages s))
      in case limit of None \<Rightarrow> rows | Some n \<Rightarrow> if n = 0 then rows else sql_limit n rows)"

section \<open>Ingestion\<close>

text \<open>
  What \<open>process_new_file\<close> learns about a detected file before it touches the storage:
  whether the file still exists, the language of its directory, the document identifier
  derived from its content hash, and whether the copy into the processing directory went
  through. Any exception of the body is logged and swallowed.
\<close>

record file_event =
  file_exists :: bool
  detected_language :: "pystr option"
  generated_doc_id :: pystr
  dest_path :: pystr
  original_filename :: pystr
  original_path :: pystr
  copy_succeeds :: bool

definition process_new_file :: "storage \<Rightarrow> nat \<Rightarrow> file_event \<Rightarrow> storage" where
  "process_new_file s now ev =
     (if \<not> file_exists ev then s
      else (case detected_language ev of
              None \<Rightarrow> s
            | Some lang \<Rightarrow>
                if lang = [] then s
                else (case get_job s (generated_doc_id ev) of
                        Some existing_job \<Rightarrow> s
                      | None \<Rightarrow>
                          if \<not> copy_succeeds ev then s
                          else (case add_job s now (generated_doc_id ev) (dest_path ev) lang
                                       (Some [(str ''original_filename'', original_filename ev),
                                              (str ''original_path'', original_path ev)]) of
                                  Inl e \<Rightarrow> s
                                | Inr (s', row) \<Rightarrow> s'))))"

definition get_next_job :: "storage \<Rightarrow> nat \<Rightarrow> storage \<times> job option" where
  "get_next_job s now =
     (case get_pending_jobs s 1 of
        [] \<Rightarrow> (s, None)
      | j # rest \<Rightarrow> (update_job_status s now (job_doc_id j) PROCESSING None, Some j))"

definition mark_job_completed :: "storage \<Rightarrow> nat \<Rightarrow> pystr \<Rightarrow> storage" where
  "mark_job_completed s now doc = update_job_status s now doc COMPLETED None"

definition mark_job_failed :: "storage \<Rightarrow> nat \<Rightarrow> pystr \<Rightarrow> pystr \<Rightarrow> storage" where
  "mark_job_failed s now doc msg = update_job_status s now doc FAILED (Some msg)"

definition job_status :: "storage \<Rightarrow> pystr \<Rightarrow> JobStatus option" where
  "job_status s doc = map_option status (get_job s doc)"

section \<open>The document pipeline\<close>

text \<open>
  \<open>process_document\<close> runs OCR, cleanup, chunking and embedding inside one \<open>try\<close>; the stages
  are external, and what matters to the job is whether one of them raised (\<open>Inl\<close> the
  message) or all went through.
\<close>

definition process_document :: "storage \<Rightarrow> nat \<Rightarrow> job \<Rightarrow> pystr + unit \<Rightarrow> storage" where
  "process_document s now j stages =
     (case stages of
        Inr ok \<Rightarrow> mark_job_completed s now (job_doc_id j)
      | Inl e \<Rightarrow> mark_job_failed s now (job_doc_id j) e)"

text \<open>
  The running system: \<open>scan_existing_files\<close> and the file watcher enqueue files while
  \<open>process_queue\<close> claims one job at a time with \<open>get_next_job\<close> and hands it to
  \<open>process_document\<close>. The state is the storage and the job \<open>process_queue\<close> holds.
\<close>

inductive pipeline_step :: "storage \<times> job option \<Rightarrow> storage \<times> job option \<Rightarrow> bool" where
  enqueue: "pipeline_step (s, held) (process_new_file s now ev, held)"
| claim: "get_next_job s now = (s', Some j) \<Longrightarrow> pipeline_step (s, None) (s', Some j)"
| finish: "pipeline_step (s, Some j) (process_document s now j stages, None)"

inductive pipeline_reachable :: "storage \<times> job option \<Rightarrow> bool" where
  init: "pipeline_reachable (empty_storage, None)"
| step: "pipeline_reachable st \<Longrightarrow> pipeline_step st st' \<Longrightarrow> pipeline_reachable st'"

text \<open>The status changes of the job state machine.\<close>

definition job_transition :: "JobStatus option \<Rightarrow> JobStatus option \<Rightarrow> bool" where
  "job_transition a b \<longleftrightarrow>
     (a = None \<and> b = Some PENDING) \<or>
     (a = Some PENDING \<and> b = Some PROCESSING) \<or>
     (a = Some PROCESSING \<and> b = Some COMPLETED) \<or>
     (a = Some PROCESSING \<and> b = Some FAILED)"

section \<open>The chat orchestrator\<close>

text \<open>\<open>generate_with_gemini\<close>, the generation with the hosted fallback model.\<close>

definition generate_with_gemini :: "(pystr \<Rightarrow> llm_outcome) \<Rightarrow> pystr \<Rightarrow> pystr" where
  "generate_with_gemini model prompt =
     (case model prompt of
        Raises \<Rightarrow> str ''I apologize, but I encountered an error. Please try again.''
      | Text response \<Rightarrow>
          if response \<noteq> [] then response
          else str ''I apologize, but I couldn't generate a response. Please try again.'')"

text \<open>
  What a chat turn takes from outside the orchestrator:
  \<^item> \<open>new_uuid\<close>, the identifier drawn for a new session;
  \<^item> \<open>retrieve_context\<close>, the outcome of the retrieval for a query: the context, or \<open>Inl\<close>
    the message of an exception;
  \<^item> \<open>build_prompt\<close>, the prompt text for a query, a context and a history (the text only
    reaches the generator);
  \<^item> \<open>ollama_stream\<close>, the pieces that \<open>generate_with_ollama_stream\<close> yields for a prompt;
    the generator catches its own exceptions, so a failure ends the list;
  \<^item> \<open>gemini_model\<close>, the hosted model behind \<open>generate_with_gemini\<close>.
\<close>

record 'm chat_env =
  new_uuid :: pystr
  retrieve_context :: "pystr \<Rightarrow> pystr + 'm retrieval_result list"
  build_prompt :: "pystr \<Rightarrow> 'm retrieval_result list \<Rightarrow> (pystr \<times> pystr) list \<Rightarrow> pystr"
  ollama_stream :: "pystr \<Rightarrow> pystr list"
  gemini_model :: "pystr \<Rightarrow> llm_outcome"

text \<open>The dictionaries that \<open>chat\<close> yields, by their \<open>type\<close>.\<close>

datatype 'm chat_event =
  Status pystr
| Context "'m retrieval_result list"
| Response pystr
| Error pystr

text \<open>The calls to a generator made during a turn, with their prompt.\<close>

datatype generator_call = Ollama pystr | Gemini pystr

text \<open>
  The result of consuming the generator \<open>chat\<close> to its end: what it yielded, the storage it
  left and the generator calls it made.
\<close>

record 'm chat_result =
  yielded :: "'m chat_event list"
  store :: storage
  calls :: "generator_call list"

text \<open>The session of the turn: a missing or empty \<open>session_id\<close> opens a new session.\<close>

definition turn_session :: "'m chat_env \<Rightarrow> pystr option \<Rightarrow> pystr" where
  "turn_session env session_id =
     (case session_id of None \<Rightarrow> new_uuid env | Some sid \<Rightarrow> if sid = [] then new_uuid env else sid)"

text \<open>
  Every write of a turn is stamped with the time at which it happens: \<open>clock 0\<close> for the new
  session, \<open>clock 1\<close> for the user's message, \<open>clock 2\<close> for the assistant's message and
  \<open>clock 3\<close> for a second write of it.
\<close>

definition open_session ::
  "'m chat_env \<Rightarrow> storage \<Rightarrow> (nat \<Rightarrow> nat) \<Rightarrow> pystr option \<Rightarrow> storage" where
  "open_session env s clock session_id =
     (case session_id of
        None \<Rightarrow> create_session s (clock 0) (new_uuid env)
      | Some sid \<Rightarrow> if sid = [] then create_session s (clock 0) (new_uuid env) else s)"

text \<open>The storage once the session is there and the user's message is saved.\<close>

definition save_user_message ::
  "'m chat_env \<Rightarrow> storage \<Rightarrow> (nat \<Rightarrow> nat) \<Rightarrow> pystr \<Rightarrow> pystr option \<Rightarrow> storage" where
  "save_user_message env s0 clock query session_id =
     add_message (open_session env s0 clock session_id) (clock 1) (turn_session env session_id)
       (str ''user'') query"

text \<open>
  The prompt of the turn: the history is read after the user's message has been stored, and
  its last row is left out.
\<close>

definition turn_prompt ::
  "'m chat_env \<Rightarrow> storage \<Rightarrow> pystr \<Rightarrow> pystr \<Rightarrow> 'm retrieval_result list \<Rightarrow> pystr" where
  "turn_prompt env s sid query context =
     build_prompt env query context
       (map (\<lambda>msg. (role msg, content msg)) (butlast (get_session_messages s sid (Some 10))))"

text \<open>
  \<open>chat\<close>, consumed to its end. The only statement of the \<open>try\<close> that the model lets raise
  is the retrieval.
\<close>

definition chat ::
  "'m chat_env \<Rightarrow> storage \<Rightarrow> (nat \<Rightarrow> nat) \<Rightarrow> pystr \<Rightarrow> pystr option \<Rightarrow> bool \<Rightarrow> 'm chat_result" where
  "chat env s0 clock query session_id stream =
     (let sid = turn_session env session_id;
          s1 = save_user_message env s0 clock query session_id;
          retrieving = Status (str ''Retrieving relevant documents...'')
      in case retrieve_context env query of
           Inl e \<Rightarrow>
             (let error_msg = str ''An error occurred: '' @ e
              in \<lparr>yielded = [retrieving, Error error_msg],
                  store = add_message s1 (clock 2) sid (str ''assistant'') error_msg,
                  calls = []\<rparr>)
         | Inr context \<Rightarrow>
             if context = [] then
               (let response_text = str ''I couldn't find any relevant information in the document database to answer your question.''
                in \<lparr>yielded = [retrieving, Status (str ''No relevant documents found''),
                               Response response_text],
                    store = add_message s1 (clock 2) sid (str ''assistant'') response_text,
                    calls = []\<rparr>)
             else
               (let prompt = turn_prompt env s1 sid query context;
                    head = [retrieving, Context context, Status (str ''Generating response...'')];
                    response_chunks = ollama_stream env prompt
                in if stream then
                     (if response_chunks \<noteq> [] then
                        \<lparr>yielded = head @ map Response response_chunks,
                         store = add_message s1 (clock 2) sid (str ''assistant'')
                                   (concat response_chunks),
                         calls = [Ollama prompt]\<rparr>
                      else
                        (let error_msg = str ''Ollama returned empty response''
                         in \<lparr>yielded = head @ [Error error_msg],
                             store = add_message s1 (clock 2) sid (str ''assistant'') error_msg,
                             calls = [Ollama prompt]\<rparr>))
                   else
                     (if concat response_chunks \<noteq> [] then
                        (let response_text = concat response_chunks;
                             s2 = add_message s1 (clock 2) sid (str ''assistant'') response_text
                         in \<lparr>yielded = head @ [Response response_text],
                             store = add_message s2 (clock 3) sid (str ''assistant'') response_text,
                             calls = [Ollama prompt]\<rparr>)
                      else
                        (let response_text = str ''Ollama returned empty response''
                         in \<lparr>yielded = head @ [Response response_text],
                             store = add_message s1 (clock 2) sid (str ''assistant'') response_text,
                             calls = [Ollama prompt]\<rparr>))))"

section \<open>Chunking\<close>

text \<open>
  The subword tokenizer (\<open>tiktoken\<close>) is a library outside the repository; the chunker takes
  its two functions as a parameter.
\<close>

record tokenizer =
  encode :: "pystr \<Rightarrow> nat list"
  decode :: "nat list \<Rightarrow> pystr"

definition count_tokens :: "tokenizer \<Rightarrow> pystr \<Rightarrow> nat" where
  "count_tokens tok t = length (encode tok t)"

text \<open>
  \<open>re.split\<close> with a pattern that never matches the empty string: \<open>match_len s\<close> is the
  length of the match that starts at the head of \<open>s\<close>, 0 when there is none. The text before
  a match, then the match itself when \<open>keep\<close> holds (a pattern with a capturing group), then
  the split of the rest. \<open>cur\<close> is the text read since the last match, reversed.
\<close>

function re_split :: "(pystr \<Rightarrow> nat) \<Rightarrow> bool \<Rightarrow> pystr \<Rightarrow> pystr \<Rightarrow> pystr list" where
  "re_split match_len keep cur [] = [rev cur]"
| "re_split match_len keep cur (c # cs) =
     (if 0 < match_len (c # cs)
      then rev cur # (if keep then [take (match_len (c # cs)) (c # cs)] else [])
           @ re_split match_len keep [] (drop (match_len (c # cs)) (c # cs))
      else re_split match_len keep (c # cur) cs)"
  by pat_completeness auto
termination
  by (relation "measure (\<lambda>(m, k, cur, s). length s)") auto

text \<open>\<open>\n\n+\<close>: two or more newlines.\<close>

definition blank_lines :: "pystr \<Rightarrow> nat" where
  "blank_lines s = (let n = length (takeWhile (\<lambda>c. c = 10) s) in if 2 \<le> n then n else 0)"

text \<open>The class of the sentence ends of Chinese text: U+3002, U+FF01, U+FF1F, U+FF1B.\<close>

definition cjk_sentence_end :: "pystr \<Rightarrow> nat" where
  "cjk_sentence_end s =
     (case s of [] \<Rightarrow> 0
      | c # cs \<Rightarrow> if c = 0x3002 \<or> c = 0xFF01 \<or> c = 0xFF1F \<or> c = 0xFF1B then 1 else 0)"

text \<open>
  \<open>[.!?]+\s+\<close>: a run of sentence punctuation and the whitespace after it. The run is
  greedy; when no whitespace follows the whole run, none follows a shorter one either.
\<close>

definition is_sentence_punct :: "pychar \<Rightarrow> bool" where
  "is_sentence_punct c \<longleftrightarrow> c = 0x2E \<or> c = 0x21 \<or> c = 0x3F"

definition sentence_end :: "pystr \<Rightarrow> nat" where
  "sentence_end s =
     (let p = length (takeWhile is_sentence_punct s);
          w = length (takeWhile is_space (drop p s))
      in if 0 < p \<and> 0 < w then p + w else 0)"

text \<open>
  The recombination loop of \<open>split_by_sentences\<close>: \<open>i\<close> runs over \<open>range(0, len - 1, 2)\<close>, so
  \<open>i + 1 < len\<close> always holds and each sentence is joined to the punctuation after it; the
  piece after the last punctuation is not reached.
\<close>

fun recombine :: "pystr list \<Rightarrow> pystr list" where
  "recombine (a # b # rest) = (a @ b) # recombine rest"
| "recombine rest = []"

definition split_by_sentences :: "pystr \<Rightarrow> pystr \<Rightarrow> pystr list" where
  "split_by_sentences t lang =
     (if lang = str ''zh''
      then filter (\<lambda>s. strip s \<noteq> []) (recombine (re_split cjk_sentence_end True [] t))
      else filter (\<lambda>s. strip s \<noteq> []) (recombine (re_split sentence_end True [] t)))"

text \<open>\<open>is_cjk_char\<close> and \<open>is_cjk_text\<close> with the default threshold 0.3, compared exactly.\<close>

definition is_cjk_char :: "pychar \<Rightarrow> bool" where
  "is_cjk_char code \<longleftrightarrow>
     (0x4E00 \<le> code \<and> code \<le> 0x9FFF) \<or> (0x3400 \<le> code \<and> code \<le> 0x4DBF) \<or>
     (0x20000 \<le> code \<and> code \<le> 0x2A6DF) \<or> (0x2A700 \<le> code \<and> code \<le> 0x2B73F) \<or>
     (0x2B740 \<le> code \<and> code \<le> 0x2B81F) \<or> (0x2B820 \<le> code \<and> code \<le> 0x2CEAF) \<or>
     (0x3000 \<le> code \<and> code \<le> 0x303F) \<or> (0xFF00 \<le> code \<and> code \<le> 0xFFEF)"

definition is_cjk_text :: "pystr \<Rightarrow> bool" where
  "is_cjk_text t \<longleftrightarrow>
     t \<noteq> [] \<and> length (strip t) \<noteq> 0 \<and>
     3 * length (strip t) \<le> 10 * length (filter is_cjk_char t)"

text \<open>
  The packing loop, which the source writes twice: over the paragraphs with the joiner
  \<open>"\n\n"\<close> and over the sentences with the joiner \<open>" "\<close>. \<open>chunks\<close> and \<open>current_chunk\<close> are
  the variables of the loop.
\<close>

fun pack ::
  "tokenizer \<Rightarrow> pystr \<Rightarrow> int \<Rightarrow> int \<Rightarrow> pystr list \<Rightarrow> pystr \<Rightarrow> pystr list \<Rightarrow> pystr list" where
  "pack tok joiner max_tokens overlap_tokens chunks current_chunk [] =
     (if current_chunk \<noteq> [] then chunks @ [current_chunk] else chunks)"
| "pack tok joiner max_tokens overlap_tokens chunks current_chunk (unit # rest) =
     (let para = strip unit
      in if para = [] then pack tok joiner max_tokens overlap_tokens chunks current_chunk rest
         else
           let test_chunk = (if current_chunk \<noteq> [] then current_chunk @ joiner @ para else para)
           in if int (count_tokens tok test_chunk) \<le> max_tokens
              then pack tok joiner max_tokens overlap_tokens chunks test_chunk rest
              else
                let chunks' = (if current_chunk \<noteq> [] then chunks @ [current_chunk] else chunks)
                in if chunks' \<noteq> [] \<and> 0 < overlap_tokens
                   then pack tok joiner max_tokens overlap_tokens chunks'
                          (decode tok (slice_from (encode tok (last chunks')) (- overlap_tokens))
                           @ joiner @ para) rest
                   else pack tok joiner max_tokens overlap_tokens chunks' para rest)"

text \<open>
  The last resort, windows of tokens. The loop ends only when \<open>i\<close> passes the number of
  tokens, which it never does when \<open>overlap_tokens\<close> is not below \<open>max_tokens\<close>; \<open>None\<close> is a
  run that does not end.
\<close>

partial_function (option) token_windows ::
  "tokenizer \<Rightarrow> nat list \<Rightarrow> int \<Rightarrow> int \<Rightarrow> int \<Rightarrow> pystr list \<Rightarrow> pystr list option" where
  "token_windows tok tokens max_tokens overlap_tokens i chunks =
     (if i < int (length tokens)
      then token_windows tok tokens max_tokens overlap_tokens (i + (max_tokens - overlap_tokens))
             (chunks @ [decode tok (slice tokens i (i + max_tokens))])
      else Some chunks)"

declare token_windows.simps [code]

definition chunk_text_recursive ::
  "config \<Rightarrow> tokenizer \<Rightarrow> pystr \<Rightarrow> pystr \<Rightarrow> int option \<Rightarrow> int option \<Rightarrow> pystr list option" where
  "chunk_text_recursive cfg tok t lang max_tokens overlap_tokens =
     (let mx = int_or max_tokens (chunk_size cfg);
          ov = int_or overlap_tokens (chunk_overlap cfg)
      in if int (count_tokens tok t) \<le> mx then Some [t]
         else
           let paragraphs =
                 (if lang \<in> {str ''zh'', str ''ja'', str ''ko''} \<or> is_cjk_text t
                  then re_split blank_lines False [] t
                  else re_split blank_lines False [] t)
           in if 1 < length paragraphs
              then Some (pack tok (str ''\<newline>\<newline>'') mx ov [] [] paragraphs)
              else
                let sentences = split_by_sentences t lang
                in if 1 < length sentences
                   then Some (pack tok (str '' '') mx ov [] [] sentences)
                   else token_windows tok (encode tok t) mx ov 0 [])"

text \<open>\<open>ValueError\<close>, raised by \<open>int()\<close>, is the one exception of \<open>chunk_document\<close>.\<close>

datatype py_error = ValueError

text \<open>\<open>f"{i:04d}"\<close> for \<open>i \<ge> 0\<close>: the decimal digits, padded with zeros to four characters.\<close>

function decimal_digits :: "nat \<Rightarrow> pystr" where
  "decimal_digits n = (if n < 10 then [48 + n] else decimal_digits (n div 10) @ [48 + n mod 10])"
  by pat_completeness auto
termination
  by (relation "measure (\<lambda>n. n)") auto

declare decimal_digits.simps [simp del]

definition format_04d :: "nat \<Rightarrow> pystr" where
  "format_04d i = replicate (4 - length (decimal_digits i)) 48 @ decimal_digits i"

text \<open>
  \<open>re.search(r'\[PAGE (\d+)\]', text)\<close>: the first place where \<open>[PAGE\<close>, a space, a run of
  decimal digits and \<open>]\<close> stand; the group is the run. \<open>int\<close> of the group can only fail on
  the interpreter's limit of digits.
\<close>

definition page_marker_at :: "unicode_db \<Rightarrow> pystr \<Rightarrow> pystr option" where
  "page_marker_at db s =
     (if take 6 s = str ''[PAGE ''
      then (let digits = takeWhile (is_decimal db) (drop 6 s)
            in case dropWhile (is_decimal db) (drop 6 s) of
                 [] \<Rightarrow> None
               | c # rest \<Rightarrow> if digits \<noteq> [] \<and> c = 0x5D then Some digits else None)
      else None)"

fun search_page_marker :: "unicode_db \<Rightarrow> pystr \<Rightarrow> pystr option" where
  "search_page_marker db [] = None"
| "search_page_marker db (c # cs) =
     (case page_marker_at db (c # cs) of
        Some digits \<Rightarrow> Some digits
      | None \<Rightarrow> search_page_marker db cs)"

definition extract_page_number :: "unicode_db \<Rightarrow> pystr \<Rightarrow> py_error + int" where
  "extract_page_number db t =
     (case search_page_marker db t of
        None \<Rightarrow> Inr 0
      | Some digits \<Rightarrow> (case py_int db digits of None \<Rightarrow> Inl ValueError | Some n \<Rightarrow> Inr n))"

text \<open>
  A \<open>Chunk\<close>: the fields of a document, the character span, and the three entries that
  \<open>chunk_document\<close> adds to the caller's metadata.
\<close>

record 'm chunk = "'m document" +
  start_char :: nat
  end_char :: nat
  chunk_index :: nat
  total_chunks :: nat
  token_count :: nat

text \<open>The loop of \<open>chunk_document\<close> over \<open>enumerate(text_chunks)\<close>.\<close>

fun make_chunks ::
  "unicode_db \<Rightarrow> tokenizer \<Rightarrow> pystr \<Rightarrow> pystr \<Rightarrow> 'm \<Rightarrow> nat \<Rightarrow> nat \<Rightarrow> nat \<Rightarrow> pystr list
   \<Rightarrow> 'm chunk list \<Rightarrow> py_error + 'm chunk list" where
  "make_chunks db tok doc lang meta n_chunks i char_offset [] chunks = Inr chunks"
| "make_chunks db tok doc lang meta n_chunks i char_offset (chunk_text # rest) chunks =
     (case extract_page_number db chunk_text of
        Inl e \<Rightarrow> Inl e
      | Inr page \<Rightarrow>
          make_chunks db tok doc lang meta n_chunks (Suc i) (char_offset + length chunk_text) rest
            (chunks @
             [\<lparr>chunk_id = doc @ str ''_chunk_'' @ format_04d i, doc_id = doc, text = chunk_text,
               language = Some lang, page_num = Some page, metadata = meta,
               start_char = char_offset, end_char = char_offset + length chunk_text,
               chunk_index = i, total_chunks = n_chunks,
               token_count = count_tokens tok chunk_text\<rparr>]))"

text \<open>
  \<open>chunk_document\<close> chunks with the configured sizes. \<open>None\<close> is a run of the chunker that
  does not end, \<open>Inl\<close> an exception.
\<close>

definition chunk_document ::
  "config \<Rightarrow> unicode_db \<Rightarrow> tokenizer \<Rightarrow> pystr \<Rightarrow> pystr \<Rightarrow> pystr \<Rightarrow> 'm
   \<Rightarrow> (py_error + 'm chunk list) option" where
  "chunk_document cfg db tok t doc lang meta =
     (case chunk_text_recursive cfg tok t lang None None of
        None \<Rightarrow> None
      | Some text_chunks \<Rightarrow>
          Some (make_chunks db tok doc lang meta (length text_chunks) 0 0 text_chunks []))"

section \<open>Reference values\<close>

text \<open>The defaults of \<open>Config\<close>.\<close>

definition default_config :: config where
  "default_config = \<lparr>
     enable_bm25 = True, fusion_method = str ''weighted'',
     dense_weight = 6 / 10, keyword_weight = 4 / 10,
     enable_rerank = True, rerank_backend = str ''gemini'', rerank_top_k = 30,
     enable_metadata_filter = True, chunk_size = 500, chunk_overlap = 65 \<rparr>"

text \<open>A retrieval result with a given \<open>chunk_id\<close>, language and score.\<close>

definition result_of :: "pystr \<Rightarrow> pystr \<Rightarrow> real \<Rightarrow> unit retrieval_result" where
  "result_of cid lang sc =
     \<lparr>chunk_id = cid, doc_id = str ''doc'', text = str ''passage'', language = Some lang,
      page_num = Some 1, metadata = (), score = sc\<rparr>"


text \<open>A tokenizer with one token per character, for running the chunker.\<close>

definition char_tokenizer :: tokenizer where
  "char_tokenizer = \<lparr>encode = (\<lambda>t. t), decode = (\<lambda>tokens. tokens)\<rparr>"

text \<open>
  A chat environment whose retrieval gives \<open>context\<close> and whose primary generator streams
  \<open>pieces\<close>; the prompt is the query and the hosted model would answer.
\<close>

definition chat_env_of :: "unit retrieval_result list \<Rightarrow> pystr list \<Rightarrow> unit chat_env" where
  "chat_env_of context pieces =
     \<lparr>new_uuid = str ''session-1'', retrieve_context = (\<lambda>query. Inr context),
      build_prompt = (\<lambda>query context history. query), ollama_stream = (\<lambda>prompt. pieces),
      gemini_model = (\<lambda>prompt. Text (str ''An answer from the hosted model''))\<rparr>"

definition detected_file :: "pystr \<Rightarrow> file_event" where
  "detected_file doc =
     \<lparr>file_exists = True, detected_language = Some (str ''en''), generated_doc_id = doc,
      dest_path = str ''processing/file.pdf'', original_filename = str ''file.pdf'',
      original_path = str ''incoming/en/file.pdf'', copy_succeeds = True\<rparr>"

section \<open>Notions of the specification\<close>

text \<open>
  A judge response from which no index can be read: no token of its first line is a string
  of digits, or \<open>int()\<close> rejects one that is.
\<close>

definition no_indices :: "unicode_db \<Rightarrow> pystr \<Rightarrow> bool" where
  "no_indices db response =
     (case index_tokens response of
        None \<Rightarrow> True
      | Some toks \<Rightarrow>
          list_all (\<lambda>t. \<not> py_isdigit db t) toks
          \<or> list_ex (\<lambda>t. py_isdigit db t \<and> py_int db t = None) toks)"

text \<open>
  The weighted score the specification gives to a \<open>chunk_id\<close>: the dense score times the
  dense weight plus the sparse score times the keyword weight, each term present only when
  the \<open>chunk_id\<close> is in that list.
\<close>

definition weighted_score ::
  "config \<Rightarrow> 'm retrieval_result list \<Rightarrow> 'm retrieval_result list \<Rightarrow> pystr \<Rightarrow> real option" where
  "weighted_score cfg dense_results sparse_results cid =
     (case (find (\<lambda>r. chunk_id r = cid) dense_results,
            find (\<lambda>r. chunk_id r = cid) sparse_results) of
        (Some d, Some sp) \<Rightarrow> Some (score d * dense_weight cfg + score sp * keyword_weight cfg)
      | (Some d, None) \<Rightarrow> Some (score d * dense_weight cfg)
      | (None, Some sp) \<Rightarrow> Some (score sp * keyword_weight cfg)
      | (None, None) \<Rightarrow> None)"

section \<open>Auxiliary notions of the proofs\<close>





text \<open>A \<open>result_map\<close> whose keys are distinct and are the \<open>chunk_id\<close> of their values.\<close>

definition keyed :: "(pystr \<times> 'm retrieval_result) list \<Rightarrow> bool" where
  "keyed m \<longleftrightarrow> distinct (map fst m) \<and> (\<forall>(k, v) \<in> set m. chunk_id v = k)"

text \<open>The \<open>result_map\<close> of the weighted method after both loops.\<close>

definition weighted_map ::
  "config \<Rightarrow> 'm retrieval_result list \<Rightarrow> 'm retrieval_result list
   \<Rightarrow> (pystr \<times> 'm retrieval_result) list" where
  "weighted_map cfg dense sparse =
     add_sparse (\<lambda>result rank. score result * keyword_weight cfg) 0
       (add_dense (\<lambda>result rank. score result * dense_weight cfg) 0 [] dense) sparse"

text \<open>
  The invariant of the running pipeline: the \<open>doc_id\<close>s of the table are distinct, and the
  job that \<open>process_queue\<close> holds is the one in state \<open>processing\<close>.
\<close>

definition pipeline_inv :: "storage \<times> job option \<Rightarrow> bool" where
  "pipeline_inv st \<longleftrightarrow>
     distinct (map job_doc_id (jobs (fst st))) \<and>
     (\<forall>j. snd st = Some j \<longrightarrow> job_status (fst st) (job_doc_id j) = Some PROCESSING)"

section \<open>Evaluation rules\<close>

lemmas string_eval =
  str_def strip_def strip_where_def is_space_def split_ws_def

lemmas slice_eval =
  slice_to_def slice_from_def slice_def norm_index_def int_or_def

lemmas ascii_eval =
  ascii_db_def is_decimal_def py_isdigit_def py_int_def

section \<open>Properties of the sub-query parser\<close>





section \<open>Properties of the reranker\<close>

lemma parse_indices_no_digit_tokens:
  "list_all (\<lambda>t. \<not> py_isdigit db t) toks \<Longrightarrow> parse_indices db toks = Some []"
  by (induction toks) auto

lemma parse_indices_rejected_token:
  "list_ex (\<lambda>t. py_isdigit db t \<and> py_int db t = None) toks \<Longrightarrow> parse_indices db toks = None"
  by (induction toks) (auto split: option.splits)

lemma enumerate_all_kept: "map snd (filter (\<lambda>(i, result). int i \<notin> set []) (enumerate n xs)) = xs"
  by (simp add: case_prod_unfold)

lemma parse_reranking_response_no_indices:
  "no_indices db response \<Longrightarrow> parse_reranking_response db response results = results"
  unfolding no_indices_def parse_reranking_response_def
  by (auto split: option.splits dest: parse_indices_no_digit_tokens parse_indices_rejected_token
      simp: case_prod_unfold)

lemma slice_to_Nil: "slice_to [] k = []"
  by (simp add: slice_to_def)

text \<open>
  C6, as stated, at \<open>top_k = 0\<close> with a judge call that fails: the result is not the input
  truncated to 0 results, since \<open>top_k or self.rerank_top_k\<close> replaces 0 by the configured
  \<open>rerank_top_k\<close>.
\<close>

theorem rerank_top_k_zero_keeps_results:
  "rerank default_config ascii_db (\<lambda>query results. Raises) (str ''budget'')
     [result_of (str ''a'') (str ''en'') 3] (Some 0) = [result_of (str ''a'') (str ''en'') 3]
   \<and> slice_to [result_of (str ''a'') (str ''en'') 3] 0 = []"
  by (simp add: rerank_def rerank_with_gemini_def default_config_def slice_eval)

text \<open>
  C6, amended: with reranking enabled on the \<open>gemini\<close> backend, for every query, result
  list and \<open>top_k\<close>, if the judge call fails, returns an empty response or returns a response
  from which no index can be read, \<open>rerank\<close> returns \<open>results[:k]\<close>, the input in its
  original order, where \<open>k\<close> is \<open>top_k\<close>, or the configured \<open>rerank_top_k\<close> when \<open>top_k\<close> is
  \<open>None\<close> or 0. The failure is a value of the model, never an exception of \<open>rerank\<close>.
\<close>

theorem rerank_degrades_to_input_order:
  assumes "enable_rerank cfg" and "rerank_backend cfg = str ''gemini''"
    and "judge query results = Raises \<or> judge query results = Text []
         \<or> (\<exists>response. judge query results = Text response \<and> no_indices db response)"
  shows "rerank cfg db judge query results top_k
         = slice_to results (int_or top_k (rerank_top_k cfg))"
proof (cases "results = []")
  case True
  with assms(1,2) show ?thesis
    by (simp add: rerank_def rerank_with_gemini_def slice_to_Nil Let_def)
next
  case False
  from assms(3) consider "judge query results = Raises" | "judge query results = Text []"
    | response where "judge query results = Text response" "no_indices db response"
    by blast
  then show ?thesis
  proof cases
    case 1
    with assms(1,2) False show ?thesis
      by (simp add: rerank_def rerank_with_gemini_def Let_def)
  next
    case 2
    with assms(1,2) False show ?thesis
      by (simp add: rerank_def rerank_with_gemini_def Let_def)
  next
    case 3
    with assms(1,2) False show ?thesis
      by (simp add: rerank_def rerank_with_gemini_def Let_def parse_reranking_response_no_indices)
  qed
qed

theorem rerank_degrades_to_input_order_witness:
  "rerank default_config ascii_db (\<lambda>query results. Text (str ''the second passage'')) (str ''budget'')
     [result_of (str ''a'') (str ''en'') 3, result_of (str ''b'') (str ''en'') 2,
      result_of (str ''c'') (str ''en'') 1] (Some 2)
   = [result_of (str ''a'') (str ''en'') 3, result_of (str ''b'') (str ''en'') 2]"
proof -
  have "no_indices ascii_db (str ''the second passage'')"
    by (simp add: no_indices_def index_tokens_def string_eval ascii_eval)
  then show ?thesis
    using rerank_degrades_to_input_order [where cfg = default_config
        and judge = "\<lambda>query results. Text (str ''the second passage'')"
        and query = "str ''budget''" and db = ascii_db and top_k = "Some 2"
        and results = "[result_of (str ''a'') (str ''en'') 3, result_of (str ''b'') (str ''en'') 2,
                        result_of (str ''c'') (str ''en'') 1]"]
    by (simp add: default_config_def slice_eval)
qed

section \<open>Properties of the weighted fusion\<close>

lemma map_of_dict_set: "map_of (dict_set m k v) = (map_of m)(k \<mapsto> v)"
  by (induction m) (auto simp: fun_eq_iff)

lemma keys_dict_set: "fst ` set (dict_set m k v) = insert k (fst ` set m)"
  by (induction m k v rule: dict_set.induct) auto

lemma distinct_dict_set: "distinct (map fst m) \<Longrightarrow> distinct (map fst (dict_set m k v))"
  by (induction m) (auto simp: keys_dict_set)

lemma set_dict_set: "(k', v') \<in> set (dict_set m k v) \<Longrightarrow> (k', v') = (k, v) \<or> (k', v') \<in> set m"
  by (induction m) (auto split: if_splits)

lemma keyed_dict_set: "keyed m \<Longrightarrow> chunk_id v = k \<Longrightarrow> keyed (dict_set m k v)"
  unfolding keyed_def by (auto simp: distinct_dict_set dest: set_dict_set)

lemma keyed_map_of: "keyed m \<Longrightarrow> map_of m k = Some v \<Longrightarrow> chunk_id v = k"
  unfolding keyed_def by (auto dest: map_of_SomeD)

lemma keyed_add_dense: "keyed m \<Longrightarrow> keyed (add_dense term rank m ds)"
proof (induction ds arbitrary: m rank)
  case Nil then show ?case by simp
next
  case (Cons d ds)
  have "keyed (dict_set m (chunk_id d) (d\<lparr>score := term d rank\<rparr>))"
    using Cons.prems by (intro keyed_dict_set) simp_all
  then show ?case by (simp add: Cons.IH)
qed

lemma keyed_add_sparse: "keyed m \<Longrightarrow> keyed (add_sparse term rank m ss)"
proof (induction ss arbitrary: m rank)
  case Nil then show ?case by simp
next
  case (Cons s ss)
  show ?case
  proof (cases "map_of m (chunk_id s)")
    case None
    have "keyed (dict_set m (chunk_id s) (s\<lparr>score := term s rank\<rparr>))"
      using Cons.prems by (intro keyed_dict_set) simp_all
    with None show ?thesis by (simp add: Cons.IH)
  next
    case (Some found)
    then have "chunk_id found = chunk_id s" using Cons.prems by (rule keyed_map_of[rotated])
    then have "keyed (dict_set m (chunk_id s) (found\<lparr>score := score found + term s rank\<rparr>))"
      using Cons.prems by (intro keyed_dict_set) simp_all
    with Some show ?thesis by (simp add: Cons.IH)
  qed
qed

lemma keys_add_dense:
  "fst ` set (add_dense term rank m ds) = fst ` set m \<union> chunk_id ` set ds"
  by (induction ds arbitrary: m rank) (simp_all add: keys_dict_set)

lemma keys_add_sparse:
  "fst ` set (add_sparse term rank m ss) = fst ` set m \<union> chunk_id ` set ss"
  by (induction ss arbitrary: m rank) (simp_all add: keys_dict_set split: option.splits)

lemma find_None_notin: "cid \<notin> set (map chunk_id rs) \<Longrightarrow> find (\<lambda>r. chunk_id r = cid) rs = None"
  by (induction rs) auto

lemma map_of_add_dense:
  "distinct (map chunk_id ds) \<Longrightarrow>
   map_of (add_dense (\<lambda>r rank. g r) rank m ds) cid =
     (case find (\<lambda>r. chunk_id r = cid) ds of
        Some d \<Rightarrow> Some (d\<lparr>score := g d\<rparr>)
      | None \<Rightarrow> map_of m cid)"
proof (induction ds arbitrary: m rank)
  case Nil then show ?case by simp
next
  case (Cons d ds)
  then show ?case
    by (auto simp: map_of_dict_set find_None_notin split: option.splits)
qed

lemma map_of_add_sparse:
  "distinct (map chunk_id ss) \<Longrightarrow>
   map_of (add_sparse (\<lambda>r rank. g r) rank m ss) cid =
     (case find (\<lambda>r. chunk_id r = cid) ss of
        Some sp \<Rightarrow> (case map_of m cid of
                     Some found \<Rightarrow> Some (found\<lparr>score := score found + g sp\<rparr>)
                   | None \<Rightarrow> Some (sp\<lparr>score := g sp\<rparr>))
      | None \<Rightarrow> map_of m cid)"
proof (induction ss arbitrary: m rank)
  case Nil then show ?case by simp
next
  case (Cons s ss)
  then show ?case
    by (auto simp: map_of_dict_set find_None_notin split: option.splits)
qed

lemma distinct_map_sort_key: "distinct (map g xs) \<Longrightarrow> distinct (map g (sort_key f xs))"
  by (simp add: distinct_map)

lemma keyed_Nil: "keyed []" by (simp add: keyed_def)

lemma keyed_values: "keyed m \<Longrightarrow> map chunk_id (map snd m) = map fst m"
  unfolding keyed_def by (induction m) auto

lemma keyed_value_lookup: "keyed m \<Longrightarrow> v \<in> set (map snd m) \<Longrightarrow> map_of m (chunk_id v) = Some v"
  unfolding keyed_def by (auto simp: case_prod_unfold)

lemma fuse_weighted: "fuse_results cfg dense sparse (str ''weighted'') = sorted_by_score_desc score (map snd (weighted_map cfg dense sparse))"
  by (simp add: fuse_results_def weighted_map_def)

lemma weighted_map_score:
  assumes "distinct (map chunk_id dense)" "distinct (map chunk_id sparse)"
  shows "map_option score (map_of (weighted_map cfg dense sparse) cid) = weighted_score cfg dense sparse cid"
  unfolding weighted_map_def weighted_score_def
  by (simp add: map_of_add_sparse[OF assms(2)] map_of_add_dense[OF assms(1)] split: option.splits)

text \<open>
  C5, as stated, at a sparse list that holds the \<open>chunk_id\<close> of the dense result twice:
  every sparse entry of the \<open>chunk_id\<close> adds its term, so the fused score is
  \<open>1 * 0.6 + 1 * 0.4 + 1 * 0.4\<close> and not \<open>dense_score * dense_weight + sparse_score * keyword_weight\<close>.
\<close>

theorem weighted_fusion_repeated_chunk_id:
  "map score
     (fuse_results default_config
        [result_of (str ''a'') (str ''en'') 1]
        [result_of (str ''a'') (str ''en'') 1, result_of (str ''a'') (str ''en'') 1]
        (str ''weighted''))
   = [14 / 10]
   \<and> (1::real) * dense_weight default_config + 1 * keyword_weight default_config = 1"
  by (simp add: fuse_results_def sorted_by_score_desc_def result_of_def
      default_config_def str_def)

text \<open>
  C5, amended: in weighted fusion, for every pair of dense and sparse result lists in which
  no \<open>chunk_id\<close> occurs twice within a list, the output holds every \<open>chunk_id\<close> of the two
  lists exactly once; a \<open>chunk_id\<close> present in both lists has the score
  \<open>dense_score * dense_weight + sparse_score * keyword_weight\<close>, a \<open>chunk_id\<close> present in
  one list only has that list's weighted term alone, and the output is sorted descending on
  the combined score.
\<close>

theorem weighted_fusion_scores:
  assumes "distinct (map chunk_id dense_results)" and "distinct (map chunk_id sparse_results)"
  shows "(\<forall>r \<in> set (fuse_results cfg dense_results sparse_results (str ''weighted'')).
            Some (score r) = weighted_score cfg dense_results sparse_results (chunk_id r))
       \<and> set (map chunk_id (fuse_results cfg dense_results sparse_results (str ''weighted'')))
           = set (map chunk_id dense_results) \<union> set (map chunk_id sparse_results)
       \<and> distinct (map chunk_id (fuse_results cfg dense_results sparse_results (str ''weighted'')))
       \<and> sorted_wrt (\<lambda>a b. score b \<le> score a)
           (fuse_results cfg dense_results sparse_results (str ''weighted''))"
proof -
  let ?m = "weighted_map cfg dense_results sparse_results"
  let ?f = "fuse_results cfg dense_results sparse_results (str ''weighted'')"
  have k: "keyed ?m"
    unfolding weighted_map_def by (intro keyed_add_sparse keyed_add_dense keyed_Nil)
  have f: "?f = sort_key (\<lambda>x. - score x) (map snd ?m)"
    by (simp add: fuse_weighted sorted_by_score_desc_def)
  have 1: "\<forall>r \<in> set ?f. Some (score r) = weighted_score cfg dense_results sparse_results (chunk_id r)"
  proof
    fix r assume "r \<in> set ?f"
    then have "r \<in> set (map snd ?m)" by (simp add: f)
    then have "map_of ?m (chunk_id r) = Some r" using k by (rule keyed_value_lookup[rotated])
    then show "Some (score r) = weighted_score cfg dense_results sparse_results (chunk_id r)"
      using weighted_map_score[OF assms, of cfg "chunk_id r"] by simp
  qed
  have "set (map chunk_id ?f) = set (map chunk_id (map snd ?m))"
    by (simp add: f image_image)
  also have "\<dots> = fst ` set ?m" by (simp only: keyed_values[OF k] set_map)
  also have "\<dots> = set (map chunk_id dense_results) \<union> set (map chunk_id sparse_results)"
    unfolding weighted_map_def by (simp add: keys_add_sparse keys_add_dense)
  finally have 2: "set (map chunk_id ?f) = set (map chunk_id dense_results) \<union> set (map chunk_id sparse_results)" .
  have "distinct (map fst ?m)"
    using k by (simp add: keyed_def)
  then have "distinct (map chunk_id (map snd ?m))"
    by (simp only: keyed_values[OF k])
  then have 3: "distinct (map chunk_id ?f)"
    unfolding f by (rule distinct_map_sort_key)
  have "sorted (map (\<lambda>x. - score x) ?f)"
    unfolding f by (rule sorted_sort_key)
  then have 4: "sorted_wrt (\<lambda>a b. score b \<le> score a) ?f"
    by (simp add: sorted_map)
  from 1 2 3 4 show ?thesis by blast
qed


theorem weighted_fusion_scores_witness:
  "map (\<lambda>r. (chunk_id r, score r))
     (fuse_results default_config
        [result_of (str ''a'') (str ''en'') 1, result_of (str ''b'') (str ''en'') 2]
        [result_of (str ''c'') (str ''en'') 5, result_of (str ''a'') (str ''en'') 3]
        (str ''weighted''))
   = [(str ''c'', 2), (str ''a'', 18 / 10), (str ''b'', 12 / 10)]
   \<and> weighted_score default_config
        [result_of (str ''a'') (str ''en'') 1, result_of (str ''b'') (str ''en'') 2]
        [result_of (str ''c'') (str ''en'') 5, result_of (str ''a'') (str ''en'') 3]
        (str ''a'') = Some (1 * (6 / 10) + 3 * (4 / 10))"
  using weighted_fusion_scores [of
      "[result_of (str ''a'') (str ''en'') 1, result_of (str ''b'') (str ''en'') 2]"
      "[result_of (str ''c'') (str ''en'') 5, result_of (str ''a'') (str ''en'') 3]"
      default_config]
  by (simp add: fuse_results_def weighted_score_def sorted_by_score_desc_def result_of_def
      default_config_def str_def)

section \<open>Properties of the sparse search\<close>






section \<open>Properties of the job store\<close>

lemma get_job_None_iff: "get_job s doc = None \<longleftrightarrow> doc \<notin> set (map job_doc_id (jobs s))"
  by (auto simp: get_job_def find_None_iff)

text \<open>
  C2, as stated, at two calls of \<open>add_job\<close> with one \<open>doc_id\<close> on the empty table: the
  second call is not ignored, it raises the integrity error of the uniqueness constraint.
\<close>

theorem add_job_twice_raises:
  "(case add_job empty_storage 0 (str ''en_report_0a1b2c3d'') (str ''processing/a.pdf'') (str ''en'') None of
      Inl e \<Rightarrow> Inr (empty_storage, 0)
    | Inr (s, row) \<Rightarrow> add_job s 1 (str ''en_report_0a1b2c3d'') (str ''processing/a.pdf'') (str ''en'') None)
   = Inl IntegrityError"
  by (simp add: add_job_def empty_storage_def)

text \<open>
  C2, amended: for every \<open>doc_id\<close>, \<open>file_path\<close>, language and metadata, after a call of
  \<open>add_job\<close> that inserted the job, the table holds exactly one row of that \<open>doc_id\<close> (the
  one just inserted, pending), and a second \<open>add_job\<close> with the same \<open>doc_id\<close> raises an
  integrity error and changes nothing. Enqueueing is idempotent one level up:
  \<open>process_new_file\<close> looks the \<open>doc_id\<close> up first and leaves the storage as it is when the
  job is there.
\<close>

theorem add_job_twice_one_row:
  assumes "add_job s now doc file lang meta = Inr (s', row)"
  shows "add_job s' now' doc file' lang' meta' = Inl IntegrityError
       \<and> length (filter (\<lambda>j. job_doc_id j = doc) (jobs s')) = 1
       \<and> jobs s' = jobs s @ [\<lparr>job_id = row, job_doc_id = doc, file_path = file, job_language = lang,
            status = PENDING, created_at = now, updated_at = now, error_message = None,
            job_metadata = (case meta of None \<Rightarrow> [] | Some m \<Rightarrow> m)\<rparr>]
       \<and> (generated_doc_id ev = doc \<longrightarrow> process_new_file s' now' ev = s')"
proof -
  from assms have fresh: "doc \<notin> set (map job_doc_id (jobs s))"
    by (auto simp: add_job_def split: if_splits)
  from assms have s': "jobs s' = jobs s @ [\<lparr>job_id = row, job_doc_id = doc, file_path = file, job_language = lang,
            status = PENDING, created_at = now, updated_at = now, error_message = None,
            job_metadata = (case meta of None \<Rightarrow> [] | Some m \<Rightarrow> m)\<rparr>]"
    by (auto simp: add_job_def split: if_splits)
  have 1: "add_job s' now' doc file' lang' meta' = Inl IntegrityError"
    by (simp add: add_job_def s')
  have "filter (\<lambda>j. job_doc_id j = doc) (jobs s) = []"
    using fresh by (auto simp: filter_empty_conv)
  then have 2: "length (filter (\<lambda>j. job_doc_id j = doc) (jobs s')) = 1"
    by (simp add: s')
  have "get_job s' doc \<noteq> None"
    by (simp add: get_job_None_iff s')
  then have 3: "generated_doc_id ev = doc \<longrightarrow> process_new_file s' now' ev = s'"
    by (auto simp: process_new_file_def split: option.splits)
  from 1 2 s' 3 show ?thesis by blast
qed

theorem add_job_twice_one_row_witness:
  "(case add_job empty_storage 0 (str ''en_report_0a1b2c3d'') (str ''processing/a.pdf'') (str ''en'') None of
      Inl e \<Rightarrow> False
    | Inr (s', row) \<Rightarrow>
        add_job s' 1 (str ''en_report_0a1b2c3d'') (str ''processing/b.pdf'') (str ''en'') None
          = Inl IntegrityError
        \<and> length (filter (\<lambda>j. job_doc_id j = str ''en_report_0a1b2c3d'') (jobs s')) = 1
        \<and> process_new_file s' 1 (detected_file (str ''en_report_0a1b2c3d'')) = s')"
proof -
  obtain s' where a: "add_job empty_storage 0 (str ''en_report_0a1b2c3d'') (str ''processing/a.pdf'')
      (str ''en'') None = Inr (s', 1)"
    by (simp add: add_job_def empty_storage_def)
  have "generated_doc_id (detected_file (str ''en_report_0a1b2c3d'')) = str ''en_report_0a1b2c3d''"
    by (simp add: detected_file_def)
  with add_job_twice_one_row [OF a, of 1 "str ''processing/b.pdf''" "str ''en''" None
      "detected_file (str ''en_report_0a1b2c3d'')"]
  have "add_job s' 1 (str ''en_report_0a1b2c3d'') (str ''processing/b.pdf'') (str ''en'') None
          = Inl IntegrityError
        \<and> length (filter (\<lambda>j. job_doc_id j = str ''en_report_0a1b2c3d'') (jobs s')) = 1
        \<and> process_new_file s' 1 (detected_file (str ''en_report_0a1b2c3d'')) = s'"
    by blast
  then show ?thesis
    by (simp only: a sum.case prod.case)
qed

section \<open>Properties of the job state machine\<close>

lemma ids_update_job_status:
  "map job_doc_id (jobs (update_job_status s now doc st err)) = map job_doc_id (jobs s)"
  by (simp add: update_job_status_def comp_def)

lemma status_find_update:
  "map_option status (find (\<lambda>j. job_doc_id j = d)
      (map (\<lambda>j. if job_doc_id j = doc
                 then j\<lparr>status := st, error_message := err, updated_at := now\<rparr> else j) js))
   = (if d = doc then map_option (\<lambda>j. st) (find (\<lambda>j. job_doc_id j = doc) js)
      else map_option status (find (\<lambda>j. job_doc_id j = d) js))"
  by (induction js) auto

lemma job_status_update_job_status:
  "job_status (update_job_status s now doc st err) d =
     (if d = doc then map_option (\<lambda>j. st) (get_job s doc) else job_status s d)"
  unfolding job_status_def get_job_def update_job_status_def
  by (simp add: status_find_update)

lemma find_snoc:
  "find P (xs @ [x]) = (case find P xs of Some y \<Rightarrow> Some y | None \<Rightarrow> if P x then Some x else None)"
  by (induction xs) auto

lemma find_absent: "d \<notin> set (map job_doc_id js) \<Longrightarrow> find (\<lambda>j. job_doc_id j = d) js = None"
  by (induction js) auto

lemma find_member:
  "distinct (map job_doc_id js) \<Longrightarrow> j \<in> set js \<Longrightarrow> find (\<lambda>x. job_doc_id x = job_doc_id j) js = Some j"
  by (induction js) auto

lemma add_job_effect:
  assumes "add_job s now doc file lang meta = Inr (s', row)"
  shows "doc \<notin> set (map job_doc_id (jobs s))"
    and "map job_doc_id (jobs s') = map job_doc_id (jobs s) @ [doc]"
    and "job_status s' d = (if d = doc then Some PENDING else job_status s d)"
proof -
  from assms show fresh: "doc \<notin> set (map job_doc_id (jobs s))"
    by (auto simp: add_job_def split: if_splits)
  from assms show "map job_doc_id (jobs s') = map job_doc_id (jobs s) @ [doc]"
    by (auto simp: add_job_def split: if_splits)
  from assms fresh show "job_status s' d = (if d = doc then Some PENDING else job_status s d)"
    by (auto simp: add_job_def job_status_def get_job_def find_snoc find_absent
        split: if_splits option.splits)
qed

lemma process_new_file_effect:
  "process_new_file s now ev = s \<or>
   (\<exists>doc file lang meta row. add_job s now doc file lang meta = Inr (process_new_file s now ev, row))"
  by (auto simp: process_new_file_def split: option.splits sum.splits)

lemma get_next_job_effect:
  assumes "get_next_job s now = (s', Some j)"
  shows "j \<in> set (jobs s)" and "status j = PENDING"
    and "s' = update_job_status s now (job_doc_id j) PROCESSING None"
proof -
  from assms obtain rest where p: "get_pending_jobs s 1 = j # rest"
    and s': "s' = update_job_status s now (job_doc_id j) PROCESSING None"
    by (auto simp: get_next_job_def split: list.splits)
  have "j \<in> set (get_pending_jobs s 1)" by (simp add: p)
  then have "j \<in> set (filter (\<lambda>j. status j = PENDING) (jobs s))"
    by (auto simp: get_pending_jobs_def sql_limit_def dest: in_set_takeD)
  then show "j \<in> set (jobs s)" and "status j = PENDING" by auto
  from s' show "s' = update_job_status s now (job_doc_id j) PROCESSING None" .
qed

lemma status_step:
  assumes inv: "pipeline_inv (s, held)" and st: "pipeline_step (s, held) (s', held')"
  shows "(job_status s' doc = job_status s doc \<or> job_transition (job_status s doc) (job_status s' doc))
         \<and> pipeline_inv (s', held')"
  using st
proof (cases rule: pipeline_step.cases)
  case (enqueue now ev)
  then have s': "s' = process_new_file s now ev" and h: "held' = held" by auto
  from process_new_file_effect [of s now ev] show ?thesis
  proof
    assume "process_new_file s now ev = s"
    with s' h inv show ?thesis by simp
  next
    assume "\<exists>d path lang meta row. add_job s now d path lang meta = Inr (process_new_file s now ev, row)"
    then obtain d path lang meta row
      where a: "add_job s now d path lang meta = Inr (s', row)"
      using s' by auto
    note e = add_job_effect [OF a]
    have "job_status s d = None"
      using e(1) by (simp add: job_status_def get_job_def find_absent)
    then have 1: "job_status s' doc = job_status s doc \<or> job_transition (job_status s doc) (job_status s' doc)"
      by (auto simp: e(3) job_transition_def)
    have 2: "pipeline_inv (s', held')"
      using inv e(1) h \<open>job_status s d = None\<close> unfolding pipeline_inv_def
      by (auto simp: e(2) e(3))
    from 1 2 show ?thesis ..
  qed
next
  case (claim now j)
  then have gn: "get_next_job s now = (s', Some j)" and h: "held' = Some j" by auto
  note e = get_next_job_effect [OF gn]
  from inv have dist: "distinct (map job_doc_id (jobs s))" by (simp add: pipeline_inv_def)
  have g: "get_job s (job_doc_id j) = Some j"
    using find_member [OF dist e(1)] by (simp add: get_job_def)
  then have before: "job_status s (job_doc_id j) = Some PENDING"
    by (simp add: job_status_def e(2))
  have after: "job_status s' d = (if d = job_doc_id j then Some PROCESSING else job_status s d)" for d
    by (simp add: e(3) job_status_update_job_status g)
  have 1: "job_status s' doc = job_status s doc \<or> job_transition (job_status s doc) (job_status s' doc)"
    using before by (auto simp: after job_transition_def)
  have 2: "pipeline_inv (s', held')"
    using dist h unfolding pipeline_inv_def
    by (simp add: e(3) ids_update_job_status job_status_update_job_status g)
  from 1 2 show ?thesis ..
next
  case (finish j now stages)
  then have hj: "held = Some j" and s': "s' = process_document s now j stages"
    and h: "held' = None" by auto
  from inv hj have before: "job_status s (job_doc_id j) = Some PROCESSING"
    by (simp add: pipeline_inv_def)
  then obtain j' where g: "get_job s (job_doc_id j) = Some j'"
    by (auto simp: job_status_def)
  have after: "job_status s' d =
      (if d = job_doc_id j then Some (case stages of Inl e \<Rightarrow> FAILED | Inr ok \<Rightarrow> COMPLETED)
       else job_status s d)" for d
    using s' g
    by (auto simp: process_document_def mark_job_completed_def mark_job_failed_def
        job_status_update_job_status split: sum.splits)
  have 1: "job_status s' doc = job_status s doc \<or> job_transition (job_status s doc) (job_status s' doc)"
    using before by (auto simp: after job_transition_def split: sum.splits)
  have 2: "pipeline_inv (s', held')"
    using inv s' h unfolding pipeline_inv_def
    by (auto simp: process_document_def mark_job_completed_def mark_job_failed_def
        ids_update_job_status split: sum.splits)
  from 1 2 show ?thesis ..
qed

lemma reachable_inv: "pipeline_reachable st \<Longrightarrow> pipeline_inv st"
proof (induction rule: pipeline_reachable.induct)
  case init
  show ?case by (simp add: pipeline_inv_def empty_storage_def)
next
  case (step st st')
  obtain s held s' held' where "st = (s, held)" "st' = (s', held')"
    by (cases st, cases st') auto
  with step show ?case using status_step by blast
qed

text \<open>
  C4, as stated, at the operations called one after the other on one job: after
  \<open>mark_job_completed\<close> the job is completed, and \<open>mark_job_failed\<close> then moves it to failed,
  since \<open>update_job_status\<close> overwrites whatever status the row has. The step leaves a
  terminal state and the job has been in both.
\<close>

theorem completed_job_marked_failed:
  "(let d = str ''en_report_0a1b2c3d'';
        s1 = (case add_job empty_storage 0 d (str ''processing/a.pdf'') (str ''en'') None of
                Inl e \<Rightarrow> empty_storage | Inr (s, row) \<Rightarrow> s);
        s2 = fst (get_next_job s1 1);
        s3 = mark_job_completed s2 2 d;
        s4 = mark_job_failed s3 3 d (str ''late error'')
    in job_status s1 d = Some PENDING \<and> job_status s2 d = Some PROCESSING
       \<and> job_status s3 d = Some COMPLETED \<and> job_status s4 d = Some FAILED)"
  by (simp add: get_job_def empty_storage_def add_job_def
      get_next_job_def get_pending_jobs_def sql_limit_def update_job_status_def
      mark_job_completed_def mark_job_failed_def job_status_def str_def Let_def)

text \<open>
  C4, amended: in the running pipeline, where \<open>process_new_file\<close> enqueues a job as pending
  only if its \<open>doc_id\<close> is absent, \<open>get_next_job\<close> claims the oldest pending job and
  \<open>process_document\<close> then marks that claimed job completed or failed once, every step
  leaves the status of every job unchanged or moves it along absent to pending, pending to
  processing, processing to completed or processing to failed. No step leaves completed or
  failed, so no job is in both. The storage itself does not check the current status.
\<close>

theorem pipeline_job_state_machine:
  assumes "pipeline_reachable (s, held)" and "pipeline_step (s, held) (s', held')"
  shows "(job_status s' doc = job_status s doc
          \<or> job_transition (job_status s doc) (job_status s' doc))
       \<and> (job_status s doc = Some COMPLETED \<longrightarrow> job_status s' doc = Some COMPLETED)
       \<and> (job_status s doc = Some FAILED \<longrightarrow> job_status s' doc = Some FAILED)"
proof -
  from assms(1) have "pipeline_inv (s, held)" by (rule reachable_inv)
  from status_step [OF this assms(2), of doc]
  have "job_status s' doc = job_status s doc \<or> job_transition (job_status s doc) (job_status s' doc)"
    by blast
  then show ?thesis by (auto simp: job_transition_def)
qed

theorem pipeline_job_state_machine_witness:
  "(let d = str ''en_report_0a1b2c3d'';
        s1 = process_new_file empty_storage 0 (detected_file d);
        s2 = fst (get_next_job s1 1);
        s3 = mark_job_completed s2 2 d
    in job_status s2 d = Some PROCESSING \<and> job_status s3 d = Some COMPLETED
       \<and> job_transition (job_status s2 d) (job_status s3 d))"
proof -
  let ?d = "str ''en_report_0a1b2c3d''"
  let ?s1 = "process_new_file empty_storage 0 (detected_file ?d)"
  let ?s2 = "fst (get_next_job ?s1 1)"
  let ?s3 = "mark_job_completed ?s2 2 ?d"
  obtain j where g: "get_next_job ?s1 1 = (?s2, Some j)" and jd: "job_doc_id j = ?d"
    by (simp add: process_new_file_def detected_file_def get_job_def empty_storage_def add_job_def
        get_next_job_def get_pending_jobs_def sql_limit_def str_def)
  have r0: "pipeline_reachable (empty_storage, None)" by (rule pipeline_reachable.init)
  have "pipeline_step (empty_storage, None) (?s1, None)"
    by (rule pipeline_step.enqueue)
  with r0 have r1: "pipeline_reachable (?s1, None)" by (rule pipeline_reachable.step)
  have "pipeline_step (?s1, None) (?s2, Some j)" using g by (rule pipeline_step.claim)
  with r1 have r2: "pipeline_reachable (?s2, Some j)" by (rule pipeline_reachable.step)
  have "pipeline_step (?s2, Some j) (process_document ?s2 2 j (Inr ()), None)"
    by (rule pipeline_step.finish)
  then have st: "pipeline_step (?s2, Some j) (?s3, None)"
    by (simp add: process_document_def jd)
  have v2: "job_status ?s2 ?d = Some PROCESSING" and v3: "job_status ?s3 ?d = Some COMPLETED"
    by (simp_all add: process_new_file_def detected_file_def get_job_def empty_storage_def add_job_def
        get_next_job_def get_pending_jobs_def sql_limit_def update_job_status_def
        mark_job_completed_def job_status_def str_def)
  from pipeline_job_state_machine [OF r2 st, of ?d] v2 v3
  have "job_transition (job_status ?s2 ?d) (job_status ?s3 ?d)" by auto
  with v2 v3 show ?thesis
    unfolding Let_def by blast
qed

section \<open>Properties of the chat orchestrator\<close>

lemma chat_messages_add_message:
  "chat_messages (add_message s now sid r c) =
     chat_messages s @ [\<lparr>message_session_id = sid, role = r, content = c, message_created_at = now\<rparr>]"
  by (simp add: add_message_def)

lemma chat_messages_open_session: "chat_messages (open_session env s clock session_id) = chat_messages s"
  by (simp add: open_session_def create_session_def split: option.splits)

lemma chat_messages_save_user_message:
  "chat_messages (save_user_message env s clock query session_id) =
     chat_messages s @ [\<lparr>message_session_id = turn_session env session_id, role = str ''user'',
                         content = query, message_created_at = clock 1\<rparr>]"
  by (simp add: save_user_message_def chat_messages_add_message chat_messages_open_session)

lemma chat_never_calls_gemini:
  "Gemini prompt \<notin> set (calls (chat env s clock query session_id stream))"
  by (simp add: chat_def Let_def split: sum.splits)

text \<open>
  C1: the claim asks for the hosted model whenever the primary stream is entirely empty.
  For every turn with a non-empty context whose primary generator yields nothing, streaming
  or not, \<open>chat\<close> makes the one call to the primary generator, reports
  \<open>Ollama returned empty response\<close> and stores that text as the assistant's message;
  \<open>generate_with_gemini\<close> is not called (by \<open>chat_never_calls_gemini\<close>, on no input at all).
\<close>

theorem chat_empty_stream_no_fallback:
  assumes "retrieve_context env query = Inr context" and "context \<noteq> []"
    and "ollama_stream env
           (turn_prompt env (save_user_message env s clock query session_id)
              (turn_session env session_id) query context) = []"
  shows "(let r = chat env s clock query session_id stream;
              sid = turn_session env session_id;
              prompt = turn_prompt env (save_user_message env s clock query session_id) sid query context;
              error_msg = str ''Ollama returned empty response''
          in calls r = [Ollama prompt]
             \<and> last (yielded r) = (if stream then Error error_msg else Response error_msg)
             \<and> chat_messages (store r) =
                 chat_messages s @
                 [\<lparr>message_session_id = sid, role = str ''user'', content = query,
                   message_created_at = clock 1\<rparr>,
                  \<lparr>message_session_id = sid, role = str ''assistant'', content = error_msg,
                   message_created_at = clock 2\<rparr>])"
  using assms
  by (simp add: chat_def Let_def chat_messages_add_message chat_messages_save_user_message)

theorem chat_empty_stream_no_fallback_witness:
  "(let r = chat (chat_env_of [result_of (str ''c1'') (str ''en'') 1] []) empty_storage (\<lambda>n. n)
              (str ''What is the budget?'') (Some (str ''s1'')) True
    in calls r = [Ollama (str ''What is the budget?'')]
       \<and> last (yielded r) = Error (str ''Ollama returned empty response'')
       \<and> map (\<lambda>m. (role m, content m)) (chat_messages (store r))
           = [(str ''user'', str ''What is the budget?''),
              (str ''assistant'', str ''Ollama returned empty response'')])"
proof -
  let ?env = "chat_env_of [result_of (str ''c1'') (str ''en'') 1] []"
  have r: "retrieve_context ?env (str ''What is the budget?'') = Inr [result_of (str ''c1'') (str ''en'') 1]"
    by (simp add: chat_env_of_def)
  have o: "ollama_stream ?env p = []" for p
    by (simp add: chat_env_of_def)
  from chat_empty_stream_no_fallback [OF r _ o, where s = empty_storage and clock = "\<lambda>n. n"
      and session_id = "Some (str ''s1'')" and stream = True]
  show ?thesis
    by (simp add: chat_def chat_env_of_def result_of_def turn_prompt_def turn_session_def
      save_user_message_def open_session_def add_message_def empty_storage_def Let_def str_def)
qed

text \<open>
  C8: for every chat turn whose retrieval gives an empty context, \<open>chat\<close> yields the two
  status messages and the no-relevant-information response, calls no generator, and appends
  to the session's messages the user's question and then that assistant message.
\<close>

theorem chat_no_context:
  assumes "retrieve_context env query = Inr []"
  shows "(let r = chat env s clock query session_id stream;
              sid = turn_session env session_id;
              reply = str ''I couldn't find any relevant information in the document database to answer your question.''
          in calls r = []
             \<and> yielded r = [Status (str ''Retrieving relevant documents...''),
                            Status (str ''No relevant documents found''), Response reply]
             \<and> chat_messages (store r) =
                 chat_messages s @
                 [\<lparr>message_session_id = sid, role = str ''user'', content = query,
                   message_created_at = clock 1\<rparr>,
                  \<lparr>message_session_id = sid, role = str ''assistant'', content = reply,
                   message_created_at = clock 2\<rparr>])"
  using assms
  by (simp add: chat_def Let_def chat_messages_add_message chat_messages_save_user_message)

theorem chat_no_context_witness:
  "(let r = chat (chat_env_of [] [str ''never asked'']) empty_storage (\<lambda>n. n)
              (str ''What is the budget?'') None True
    in calls r = []
       \<and> map (\<lambda>m. (message_session_id m, role m, content m)) (chat_messages (store r)) =
           [(str ''session-1'', str ''user'', str ''What is the budget?''),
            (str ''session-1'', str ''assistant'', str ''I couldn't find any relevant information in the document database to answer your question.'')])"
  using chat_no_context [of "chat_env_of [] [str ''never asked'']" "str ''What is the budget?''"
      empty_storage "\<lambda>n. n" None True]
  by (simp add: chat_env_of_def turn_session_def empty_storage_def Let_def)

text \<open>
  C9: for every chat turn with a non-empty context, with \<open>stream=False\<close> and a non-empty
  primary response the assistant's message is appended twice, as two rows of the same
  session, role and content after the user's row; with \<open>stream=True\<close> exactly one assistant
  row is appended.
\<close>

theorem chat_assistant_rows:
  assumes "retrieve_context env query = Inr context" and "context \<noteq> []"
  shows "(let sid = turn_session env session_id;
              prompt = turn_prompt env (save_user_message env s clock query session_id) sid query context;
              user_row = \<lparr>message_session_id = sid, role = str ''user'', content = query,
                          message_created_at = clock 1\<rparr>;
              reply = (\<lambda>text n. \<lparr>message_session_id = sid, role = str ''assistant'',
                                 content = text, message_created_at = clock n\<rparr>)
          in (concat (ollama_stream env prompt) \<noteq> [] \<longrightarrow>
                chat_messages (store (chat env s clock query session_id False)) =
                  chat_messages s @ [user_row, reply (concat (ollama_stream env prompt)) 2,
                                     reply (concat (ollama_stream env prompt)) 3])
             \<and> (\<exists>text. chat_messages (store (chat env s clock query session_id True)) =
                  chat_messages s @ [user_row, reply text 2]))"
  using assms
  by (simp add: chat_def Let_def chat_messages_add_message chat_messages_save_user_message)

theorem chat_assistant_rows_witness:
  "map content (chat_messages (store (chat (chat_env_of [result_of (str ''c1'') (str ''en'') 1]
        [str ''50'', str '' lakh'']) empty_storage (\<lambda>n. n) (str ''What is the budget?'')
        (Some (str ''s1'')) False)))
     = [str ''What is the budget?'', str ''50 lakh'', str ''50 lakh'']
   \<and> map content (chat_messages (store (chat (chat_env_of [result_of (str ''c1'') (str ''en'') 1]
        [str ''50'', str '' lakh'']) empty_storage (\<lambda>n. n) (str ''What is the budget?'')
        (Some (str ''s1'')) True)))
     = [str ''What is the budget?'', str ''50 lakh'']"
proof -
  let ?env = "chat_env_of [result_of (str ''c1'') (str ''en'') 1] [str ''50'', str '' lakh'']"
  have r: "retrieve_context ?env (str ''What is the budget?'') = Inr [result_of (str ''c1'') (str ''en'') 1]"
    by (simp add: chat_env_of_def)
  from chat_assistant_rows [OF r, of "Some (str ''s1'')" empty_storage "\<lambda>n. n"]
  show ?thesis
    by (simp add: chat_def chat_env_of_def result_of_def turn_prompt_def turn_session_def
        save_user_message_def open_session_def add_message_def empty_storage_def Let_def str_def)
qed

section \<open>Properties of the chunker\<close>

text \<open>
  The chunks of \<open>chunk_document\<close> carry the texts of \<open>chunk_text_recursive\<close> unchanged, each
  with its token count; with the configured sizes 2 and 1 the document of the two
  paragraphs \<open>a b c d\<close> and \<open>e\<close> gives chunks over the size.
\<close>

lemma make_chunks_fields:
  "make_chunks db tok doc lang meta n_chunks i char_offset texts acc = Inr chunks \<Longrightarrow>
   map text chunks = map text acc @ texts \<and>
   map token_count chunks = map token_count acc @ map (count_tokens tok) texts"
  by (induction texts arbitrary: i char_offset acc) (auto split: sum.splits)

lemma chunk_document_texts:
  assumes "chunk_document cfg db tok t doc lang meta = Some (Inr chunks)"
  shows "chunk_text_recursive cfg tok t lang None None = Some (map text chunks)
       \<and> map token_count chunks = map (count_tokens tok) (map text chunks)"
proof -
  from assms obtain text_chunks
    where c: "chunk_text_recursive cfg tok t lang None None = Some text_chunks"
      and m: "make_chunks db tok doc lang meta (length text_chunks) 0 0 text_chunks [] = Inr chunks"
    by (auto simp: chunk_document_def split: option.splits)
  from make_chunks_fields [OF m] c show ?thesis by simp
qed

lemma chunk_document_over_chunk_size:
  "\<exists>chunks. chunk_document (default_config\<lparr>chunk_size := 2, chunk_overlap := 1\<rparr>) db char_tokenizer
       (str ''a b c d\<newline>\<newline>e'') (str ''report'') (str ''en'') meta = Some (Inr chunks)
     \<and> map text chunks = [str ''a b c d'', str ''d\<newline>\<newline>e'']
     \<and> map token_count chunks = [7, 4]"
proof -
  have c: "chunk_text_recursive (default_config\<lparr>chunk_size := 2, chunk_overlap := 1\<rparr>) char_tokenizer
      (str ''a b c d\<newline>\<newline>e'') (str ''en'') None None = Some [str ''a b c d'', str ''d\<newline>\<newline>e'']"
    by (simp add: chunk_text_recursive_def blank_lines_def string_eval slice_eval Let_def
        count_tokens_def char_tokenizer_def default_config_def)
  have p: "extract_page_number db (str ''a b c d'') = Inr 0"
      "extract_page_number db (str ''d\<newline>\<newline>e'') = Inr 0"
    by (simp_all add: extract_page_number_def page_marker_at_def str_def)
  have n: "count_tokens char_tokenizer (str ''a b c d'') = 7"
      "count_tokens char_tokenizer (str ''d\<newline>\<newline>e'') = 4"
    by (simp_all add: count_tokens_def char_tokenizer_def str_def)
  show ?thesis
    by (simp add: chunk_document_def c p n)
qed

text \<open>
  C3: the claim bounds every chunk by \<open>max_tokens\<close>. For the text of the two paragraphs
  \<open>a b c d\<close> and \<open>e\<close>, \<open>max_tokens = 2\<close> and \<open>overlap_tokens = 1\<close>, and every tokenizer that
  counts more than two tokens in the first paragraph and in the whole text, the packing loop
  emits the first paragraph whole: a paragraph over the limit is never split further.
\<close>

theorem chunk_over_max_tokens:
  assumes "2 < count_tokens tok (str ''a b c d'')"
    and "2 < count_tokens tok (str ''a b c d\<newline>\<newline>e'')"
  shows "chunk_text_recursive cfg tok (str ''a b c d\<newline>\<newline>e'') (str ''en'') (Some 2) (Some 1)
         = Some [str ''a b c d'',
                 decode tok (slice_from (encode tok (str ''a b c d'')) (- 1)) @ str ''\<newline>\<newline>e'']
       \<and> \<not> int (count_tokens tok (str ''a b c d'')) \<le> 2"
  using assms
  by (simp add: chunk_text_recursive_def blank_lines_def string_eval int_or_def Let_def)

theorem chunk_over_max_tokens_witness:
  "chunk_text_recursive default_config char_tokenizer (str ''a b c d\<newline>\<newline>e'') (str ''en'')
     (Some 2) (Some 1) = Some [str ''a b c d'', str ''d\<newline>\<newline>e'']
   \<and> count_tokens char_tokenizer (str ''a b c d'') = 7"
  using chunk_over_max_tokens [of char_tokenizer default_config]
  by (simp add: count_tokens_def char_tokenizer_def slice_eval str_def)

end
